theory Spec2Isabelle
  imports Main
begin

section \<open>Errors\<close>

text \<open>
  A Go function of the generator either returns an \<open>error\<close> value or panics (a nil
  dereference, an index out of range, a failed type assertion). Both end the call; both are
  \<open>Inl\<close> values of the result type, and \<open>Panic\<close> keeps them apart.
\<close>

datatype panic = NilDereference | IndexOutOfRange | TypeAssertion

datatype error =
    ReadError string
  | SyntaxError string
  | JsonError string
  | ScanError string
  | TemplateError string
  | FormatError string
  | WriteError string
  | Panic panic

section \<open>The functions of package strings that the parser calls\<close>

text \<open>
  Strings are byte lists. The separators and cut sets the generator passes are one-byte
  ASCII strings (\<open>","\<close>, \<open>"|"\<close>, \<open>"="\<close>, a back quote, a double quote), so a
  separator is a \<open>char\<close> here.
\<close>

definition strings_HasPrefix :: "string \<Rightarrow> string \<Rightarrow> bool" where
  "strings_HasPrefix s prefix = (take (length prefix) s = prefix)"

definition strings_TrimPrefix :: "string \<Rightarrow> string \<Rightarrow> string" where
  "strings_TrimPrefix s prefix =
     (if strings_HasPrefix s prefix then drop (length prefix) s else s)"

definition strings_Trim :: "string \<Rightarrow> string \<Rightarrow> string" where
  "strings_Trim s cutset =
     rev (dropWhile (\<lambda>c. c \<in> set cutset) (rev (dropWhile (\<lambda>c. c \<in> set cutset) s)))"

text \<open>\<open>strings.Split(s, sep)\<close>: every piece between separators; the empty string gives one empty piece.\<close>

fun strings_Split :: "string \<Rightarrow> char \<Rightarrow> string list" where
  "strings_Split [] sep = [[]]"
| "strings_Split (c # cs) sep =
     (if c = sep then [] # strings_Split cs sep
      else (case strings_Split cs sep of
              [] \<Rightarrow> [[c]]
            | p # ps \<Rightarrow> (c # p) # ps))"

text \<open>\<open>strings.SplitN(s, sep, n)\<close> for \<open>n \<ge> 0\<close>: at most \<open>n\<close> pieces, the last one the unsplit rest.\<close>

fun strings_SplitN :: "string \<Rightarrow> char \<Rightarrow> nat \<Rightarrow> string list" where
  "strings_SplitN s sep 0 = []"
| "strings_SplitN s sep (Suc 0) = [s]"
| "strings_SplitN s sep (Suc (Suc n)) =
     (if sep \<in> set s
      then takeWhile (\<lambda>c. c \<noteq> sep) s # strings_SplitN (tl (dropWhile (\<lambda>c. c \<noteq> sep) s)) sep (Suc n)
      else [s])"

section \<open>strToInt: fmt.Sscanf with the verb %d\<close>

text \<open>
  \<open>fmt.Sscanf(s, "%d", &i)\<close> skips leading white space (a newline is an error, a carriage
  return before a newline is skipped), accepts one sign, then reads the longest run of
  decimal digits and underscores; the token goes to \<open>strconv.ParseInt(tok, 10, 64)\<close>, which
  rejects an underscore and a value outside 64 bits. Input after the token is ignored.
\<close>

definition isSpaceByte :: "char \<Rightarrow> bool" where
  "isSpaceByte c = (c \<in> {CHR 0x09, CHR 0x0B, CHR 0x0C, CHR 0x0D, CHR 0x20})"

fun SkipSpace :: "string \<Rightarrow> error + string" where
  "SkipSpace [] = Inr []"
| "SkipSpace (c # cs) =
     (if c = CHR 0x0D \<and> (case cs of [] \<Rightarrow> False | d # _ \<Rightarrow> d = CHR 0x0A) then SkipSpace cs
      else if c = CHR 0x0A then Inl (ScanError ''unexpected newline'')
      else if isSpaceByte c then SkipSpace cs
      else (case cs of
              d # ds \<Rightarrow>
                if c = CHR 0xC2 \<and> (d = CHR 0x85 \<or> d = CHR 0xA0) then SkipSpace ds
                else (case ds of
                        e # es \<Rightarrow>
                          if (c = CHR 0xE1 \<and> d = CHR 0x9A \<and> e = CHR 0x80)
                           \<or> (c = CHR 0xE2 \<and> d = CHR 0x80 \<and>
                                 (of_char e \<in> {0x80 .. (0x8A::nat)} \<or> e = CHR 0xA8 \<or> e = CHR 0xA9 \<or> e = CHR 0xAF))
                           \<or> (c = CHR 0xE2 \<and> d = CHR 0x81 \<and> e = CHR 0x9F)
                           \<or> (c = CHR 0xE3 \<and> d = CHR 0x80 \<and> e = CHR 0x80)
                          then SkipSpace es
                          else Inr (c # cs)
                      | [] \<Rightarrow> Inr (c # cs))
            | [] \<Rightarrow> Inr (c # cs)))"

definition digitValue :: "char \<Rightarrow> int" where
  "digitValue c = int (of_char c) - 48"

definition decimal :: "string \<Rightarrow> int" where
  "decimal tok = foldl (\<lambda>a c. 10 * a + digitValue c) 0 tok"

definition fmt_Sscanf_d :: "string \<Rightarrow> error + int" where
  "fmt_Sscanf_d s =
     (case SkipSpace s of
        Inl e \<Rightarrow> Inl e
      | Inr r \<Rightarrow>
         (case r of
            [] \<Rightarrow> Inl (ScanError ''unexpected EOF'')
          | c # cs \<Rightarrow>
             let negative = (c = CHR ''-'');
                 r1 = (if c = CHR ''+'' \<or> c = CHR ''-'' then cs else r);
                 tok = takeWhile (\<lambda>c. c \<in> set ''0123456789_'') r1
             in if tok = [] then
                  Inl (ScanError (if r1 = [] then ''unexpected EOF'' else ''expected integer''))
                else if CHR ''_'' \<in> set tok then Inl (ScanError ''invalid syntax'')
                else let v = (if negative then - decimal tok else decimal tok)
                     in if - (2 ^ 63) \<le> v \<and> v < 2 ^ 63 then Inr v
                        else Inl (ScanError ''value out of range'')))"

definition strToInt :: "string \<Rightarrow> error + int" where
  "strToInt s = fmt_Sscanf_d s"

section \<open>The validation tag\<close>

record ApiValidatorTag =
  Required :: bool
  Min_opt :: "int option"
  Max_opt :: "int option"
  ParamName :: string
  Enum :: "string list"
  Default :: string

text \<open>\<open>ApiValidatorTag{}\<close>: the zero value.\<close>

definition zeroApiValidatorTag :: ApiValidatorTag where
  "zeroApiValidatorTag =
     \<lparr>Required = False, Min_opt = None, Max_opt = None, ParamName = [], Enum = [], Default = []\<rparr>"

text \<open>Lines 156 to 160 of parser.go: from the literal's text to the clauses.\<close>

definition tagParts :: "string \<Rightarrow> string list" where
  "tagParts tagText =
     (let tagValue = strings_Trim tagText ''`'';
          apiValidatorTag = strings_TrimPrefix tagValue ''apivalidator:'';
          apiValidatorTag = strings_Trim apiValidatorTag [CHR 0x22]
      in strings_Split apiValidatorTag (CHR '',''))"

definition clauseKey :: "string \<Rightarrow> string" where
  "clauseKey part = (case strings_SplitN part (CHR ''='') 2 of [] \<Rightarrow> [] | key # _ \<Rightarrow> key)"

definition clauseValue :: "string \<Rightarrow> string" where
  "clauseValue part = (case strings_SplitN part (CHR ''='') 2 of _ # v # _ \<Rightarrow> v | _ \<Rightarrow> [])"

text \<open>The body of the loop over the clauses: the switch on the key.\<close>

definition applyClause :: "ApiValidatorTag \<Rightarrow> string \<Rightarrow> ApiValidatorTag" where
  "applyClause result part =
     (let key = clauseKey part; val = clauseValue part
      in if key = ''required'' then result\<lparr>Required := True\<rparr>
         else if key = ''paramname'' then result\<lparr>ParamName := val\<rparr>
         else if key = ''enum'' then result\<lparr>Enum := strings_Split val (CHR ''|'')\<rparr>
         else if key = ''default'' then result\<lparr>Default := val\<rparr>
         else if key = ''min'' then
           (case strToInt val of Inr intValue \<Rightarrow> result\<lparr>Min_opt := Some intValue\<rparr> | Inl _ \<Rightarrow> result)
         else if key = ''max'' then
           (case strToInt val of Inr intValue \<Rightarrow> result\<lparr>Max_opt := Some intValue\<rparr> | Inl _ \<Rightarrow> result)
         else result)"

text \<open>The argument is the \<open>Value\<close> of the tag literal, \<open>None\<close> for a nil tag.\<close>

definition parseApiValidatorTag :: "string option \<Rightarrow> ApiValidatorTag" where
  "parseApiValidatorTag tag =
     (case tag of
        None \<Rightarrow> zeroApiValidatorTag
      | Some tagText \<Rightarrow> foldl applyClause zeroApiValidatorTag (tagParts tagText))"

section \<open>The syntax tree of go/ast, as far as the generator reads it\<close>

text \<open>
  An expression is an identifier, a pointer type \<open>*X\<close>, or any other node (a selector
  \<open>pkg.T\<close>, an array type, an index expression, ...), which the generator never looks into.
\<close>

datatype Expr = Ident string | StarExpr Expr | OtherExpr string

text \<open>
  \<open>ast.Field\<close>: one entry of a parameter, result, receiver or struct field list. \<open>Names\<close>
  is empty for an unnamed parameter, an unnamed receiver and an embedded field; \<open>Tag\<close> is
  the text of the tag literal, \<open>None\<close> when the field has no tag.
\<close>

record ast_Field =
  Names :: "string list"
  Type :: Expr
  Tag :: "string option"

datatype ast_TypeExpr = StructType "ast_Field list" | OtherType

record ast_TypeSpec =
  Name :: string
  Type :: ast_TypeExpr

text \<open>\<open>Results\<close> is nil for a function without results; \<open>Params\<close> is never nil.\<close>

record ast_FuncType =
  Params :: "ast_Field list"
  Results :: "ast_Field list option"

text \<open>
  \<open>ast.FuncDecl\<close>: \<open>Doc\<close> is the list of comment texts of the doc comment (nil without
  one), \<open>Recv\<close> the receiver list (nil for a package-level function), \<open>Body\<close> the
  \<open>TypeSpec\<close> nodes inside the function body in the order \<open>ast.Inspect\<close> visits them.
\<close>

record ast_FuncDecl =
  Doc :: "string list option"
  Recv :: "ast_Field list option"
  Name :: string
  Type :: ast_FuncType
  Body :: "ast_TypeSpec list"

text \<open>A general declaration is kept as the \<open>TypeSpec\<close> nodes inside it, in traversal order.\<close>

datatype ast_Decl = FuncDecl ast_FuncDecl | GenDecl "ast_TypeSpec list"

record ast_File =
  Name :: string
  Decls :: "ast_Decl list"

section \<open>The generator's data model\<close>

record ApiMethod =
  Url :: string
  Auth :: bool
  Method :: string
  AuthEnvKey :: string

record StructField =
  Name :: string
  Type :: string
  Tag :: ApiValidatorTag

record Method =
  Name :: string
  ReceiverName :: string
  ReceiverType :: string
  InputType :: string
  OutputType :: string
  ApiMethod :: ApiMethod
  StructFields :: "StructField list"

definition zeroApiMethod :: ApiMethod where
  "zeroApiMethod = \<lparr>Url = [], Auth = False, Method = [], AuthEnvKey = []\<rparr>"

text \<open>The data handed to the template: the package name and the map from receiver type to its methods.\<close>

record templateData =
  PackageName :: string
  Methods :: "string \<rightharpoonup> Method list"

section \<open>The world and the libraries\<close>

text \<open>
  The file system maps a path to the bytes of the file. \<open>os.WriteFile\<close> either fails at
  opening the file (a path in \<open>denied\<close>) or replaces the whole content.
\<close>

record world =
  files :: "string \<rightharpoonup> string"
  denied :: "string set"

definition os_WriteFile :: "string \<Rightarrow> string \<Rightarrow> world \<Rightarrow> error option \<times> world" where
  "os_WriteFile name content w =
     (if name \<in> denied w then (Some (WriteError name), w)
      else (None, w\<lparr>files := (files w)(name \<mapsto> content)\<rparr>))"

text \<open>
  The library functions and the template the generator calls are parameters of the model:
  the parser of go/parser on the bytes of a file, \<open>json.Unmarshal\<close> into a zero
  \<open>ApiMethod\<close>, the text \<open>fmt.Sprintf("%s", expr)\<close> gives, the execution of
  \<open>handlerTemplate\<close> on the template data, and \<open>format.Source\<close>.
\<close>

datatype parser_Mode = ParseComments | PackageClauseOnly

record golib =
  parser_ParseSource :: "parser_Mode \<Rightarrow> string \<Rightarrow> error + ast_File"
  json_Unmarshal :: "string \<Rightarrow> error + ApiMethod"
  fmt_Sprintf_s :: "Expr \<Rightarrow> string"
  handlerTemplate_Execute :: "templateData \<Rightarrow> error + string"
  format_Source :: "string \<Rightarrow> error + string"

definition parser_ParseFile :: "golib \<Rightarrow> world \<Rightarrow> string \<Rightarrow> parser_Mode \<Rightarrow> error + ast_File" where
  "parser_ParseFile L w filename mode =
     (case files w filename of
        None \<Rightarrow> Inl (ReadError filename)
      | Some src \<Rightarrow> parser_ParseSource L mode src)"

section \<open>Reads that can panic\<close>

definition and_then :: "error + 'a \<Rightarrow> ('a \<Rightarrow> error + 'b) \<Rightarrow> error + 'b" where
  "and_then r f = (case r of Inl e \<Rightarrow> Inl e | Inr x \<Rightarrow> f x)"

definition deref :: "'a option \<Rightarrow> error + 'a" where
  "deref p = (case p of None \<Rightarrow> Inl (Panic NilDereference) | Some x \<Rightarrow> Inr x)"

definition index :: "'a list \<Rightarrow> nat \<Rightarrow> error + 'a" where
  "index xs i = (if i < length xs then Inr (xs ! i) else Inl (Panic IndexOutOfRange))"

definition assertStarExpr :: "Expr \<Rightarrow> error + Expr" where
  "assertStarExpr e = (case e of StarExpr x \<Rightarrow> Inr x | _ \<Rightarrow> Inl (Panic TypeAssertion))"

definition assertIdent :: "Expr \<Rightarrow> error + string" where
  "assertIdent e = (case e of Ident name \<Rightarrow> Inr name | _ \<Rightarrow> Inl (Panic TypeAssertion))"

section \<open>parser.go\<close>

text \<open>Lines 129 to 140: the named fields of a struct type, each with its parsed tag.\<close>

definition structFieldsOf :: "golib \<Rightarrow> ast_Field list \<Rightarrow> StructField list" where
  "structFieldsOf L fieldList =
     concat (map (\<lambda>field.
        case ast_Field.Names field of
          [] \<Rightarrow> []
        | fieldName # _ \<Rightarrow>
            [\<lparr>StructField.Name = fieldName,
              StructField.Type = fmt_Sprintf_s L (ast_Field.Type field),
              StructField.Tag = parseApiValidatorTag (ast_Field.Tag field)\<rparr>]) fieldList)"

text \<open>The \<open>TypeSpec\<close> nodes of a file in the order \<open>ast.Inspect\<close> reaches them.\<close>

definition typeSpecsOf :: "ast_File \<Rightarrow> ast_TypeSpec list" where
  "typeSpecsOf node =
     concat (map (\<lambda>decl. case decl of FuncDecl fd \<Rightarrow> Body fd | GenDecl specs \<Rightarrow> specs) (Decls node))"

definition parseStructFields :: "golib \<Rightarrow> world \<Rightarrow> string \<Rightarrow> string \<Rightarrow> error + StructField list" where
  "parseStructFields L w filename structName =
     (case parser_ParseFile L w filename ParseComments of
        Inl err \<Rightarrow> Inl err
      | Inr node \<Rightarrow>
          Inr (concat (map (\<lambda>typeSpec.
                 if ast_TypeSpec.Name typeSpec = structName
                 then (case ast_TypeSpec.Type typeSpec of
                         StructType fieldList \<Rightarrow> structFieldsOf L fieldList
                       | OtherType \<Rightarrow> [])
                 else []) (typeSpecsOf node))))"

text \<open>
  Lines 81 to 87: the composite literal, its five fields evaluated in order. Every
  selector, index and type assertion is a read that panics when the tree has another shape.
\<close>

definition methodHeader :: "ast_FuncDecl \<Rightarrow> error + Method" where
  "methodHeader funcDecl =
     and_then (deref (Recv funcDecl)) (\<lambda>recvList.
     and_then (index recvList 0) (\<lambda>recv.
     and_then (index (ast_Field.Names recv) 0) (\<lambda>receiverName.
     and_then (assertStarExpr (ast_Field.Type recv)) (\<lambda>recvX.
     and_then (assertIdent recvX) (\<lambda>receiverType.
     and_then (index (Params (ast_FuncDecl.Type funcDecl)) 1) (\<lambda>param.
     and_then (assertIdent (ast_Field.Type param)) (\<lambda>inputType.
     and_then (deref (Results (ast_FuncDecl.Type funcDecl))) (\<lambda>resultList.
     and_then (index resultList 0) (\<lambda>res.
     and_then (assertStarExpr (ast_Field.Type res)) (\<lambda>resX.
     and_then (assertIdent resX) (\<lambda>outputType.
     Inr \<lparr>Method.Name = ast_FuncDecl.Name funcDecl,
          ReceiverName = receiverName,
          ReceiverType = receiverType,
          InputType = inputType,
          OutputType = outputType,
          ApiMethod = zeroApiMethod,
          StructFields = []\<rparr>)))))))))))"

text \<open>Lines 96 to 104: the defaults of the directive.\<close>

definition defaultFill :: "ApiMethod \<Rightarrow> ApiMethod" where
  "defaultFill apiMethod =
     (let a = (if Method apiMethod = [] then apiMethod\<lparr>Method := ''GET,POST''\<rparr> else apiMethod)
      in if Auth a \<and> AuthEnvKey a = [] then a\<lparr>AuthEnvKey := ''API_AUTH_KEY''\<rparr> else a)"

definition parseMethod :: "golib \<Rightarrow> world \<Rightarrow> ast_FuncDecl \<Rightarrow> string \<Rightarrow> string \<Rightarrow> error + Method" where
  "parseMethod L w funcDecl comment filename =
     and_then (methodHeader funcDecl) (\<lambda>method.
     and_then (json_Unmarshal L (strings_TrimPrefix comment ''// apigen:api'')) (\<lambda>apiMethod.
     and_then (parseStructFields L w filename (InputType method)) (\<lambda>structFields.
     Inr (method\<lparr>ApiMethod := defaultFill apiMethod, StructFields := structFields\<rparr>))))"

text \<open>
  Lines 61 to 72: the first comment of the doc comment that starts with the directive
  prefix, where the inner loop calls \<open>parseMethod\<close> and breaks.
\<close>

definition directiveOf :: "ast_FuncDecl \<Rightarrow> string option" where
  "directiveOf funcDecl =
     (case Doc funcDecl of
        None \<Rightarrow> None
      | Some docList \<Rightarrow> find (\<lambda>text. strings_HasPrefix text ''// apigen:api'') docList)"

text \<open>The loop over the declarations, with the slice of methods collected so far.\<close>

fun parseDecls :: "golib \<Rightarrow> world \<Rightarrow> string \<Rightarrow> ast_Decl list \<Rightarrow> Method list \<Rightarrow> error + Method list" where
  "parseDecls L w filename [] methods = Inr methods"
| "parseDecls L w filename (GenDecl specs # decls) methods = parseDecls L w filename decls methods"
| "parseDecls L w filename (FuncDecl funcDecl # decls) methods =
     (case directiveOf funcDecl of
        None \<Rightarrow> parseDecls L w filename decls methods
      | Some comment \<Rightarrow>
          (case parseMethod L w funcDecl comment filename of
             Inl err \<Rightarrow> Inl err
           | Inr method \<Rightarrow> parseDecls L w filename decls (methods @ [method])))"

text \<open>
  The declarations the loop calls \<open>parseMethod\<close> on, and what it appends for one of them.
\<close>

definition annotated :: "ast_Decl \<Rightarrow> bool" where
  "annotated decl = (case decl of FuncDecl funcDecl \<Rightarrow> directiveOf funcDecl \<noteq> None | GenDecl _ \<Rightarrow> False)"

definition extracted :: "golib \<Rightarrow> world \<Rightarrow> string \<Rightarrow> ast_Decl \<Rightarrow> Method \<Rightarrow> bool" where
  "extracted L w filename decl method =
     (case decl of
        FuncDecl funcDecl \<Rightarrow>
          (case directiveOf funcDecl of
             None \<Rightarrow> False
           | Some comment \<Rightarrow> parseMethod L w funcDecl comment filename = Inr method)
      | GenDecl _ \<Rightarrow> False)"

definition parseFile :: "golib \<Rightarrow> world \<Rightarrow> string \<Rightarrow> error + Method list" where
  "parseFile L w filename =
     (case parser_ParseFile L w filename ParseComments of
        Inl err \<Rightarrow> Inl err
      | Inr node \<Rightarrow> parseDecls L w filename (Decls node) [])"

section \<open>The generator\<close>

definition getPackageName :: "golib \<Rightarrow> world \<Rightarrow> string \<Rightarrow> error + string" where
  "getPackageName L w filename =
     (case parser_ParseFile L w filename PackageClauseOnly of
        Inl err \<Rightarrow> Inl err
      | Inr node \<Rightarrow> Inr (ast_File.Name node))"

text \<open>
  Lines 27 to 30: \<open>groupedMethods[k] = append(groupedMethods[k], method)\<close>; a key that
  is not in the map reads as the nil slice.
\<close>

definition addMethod :: "(string \<rightharpoonup> Method list) \<Rightarrow> Method \<Rightarrow> (string \<rightharpoonup> Method list)" where
  "addMethod groupedMethods method =
     groupedMethods(ReceiverType method \<mapsto>
       (case groupedMethods (ReceiverType method) of None \<Rightarrow> [] | Some ms \<Rightarrow> ms) @ [method])"

definition groupMethods :: "Method list \<Rightarrow> (string \<rightharpoonup> Method list)" where
  "groupMethods methods = foldl addMethod Map.empty methods"

definition Generate :: "golib \<Rightarrow> string \<Rightarrow> string \<Rightarrow> world \<Rightarrow> error option \<times> world" where
  "Generate L inputFile outputFile w =
     (case parseFile L w inputFile of
        Inl err \<Rightarrow> (Some err, w)
      | Inr methods \<Rightarrow>
     (case getPackageName L w inputFile of
        Inl err \<Rightarrow> (Some err, w)
      | Inr packageName \<Rightarrow>
     (case handlerTemplate_Execute L
             \<lparr>PackageName = packageName, Methods = groupMethods methods\<rparr> of
        Inl err \<Rightarrow> (Some err, w)
      | Inr buf \<Rightarrow>
     (case format_Source L buf of
        Inl err \<Rightarrow> (Some err, w)
      | Inr formattedCode \<Rightarrow> os_WriteFile outputFile formattedCode w))))"

section \<open>Example inputs\<close>

text \<open>
  The inputs of the examples below follow example/api.go of the repository: methods
  \<open>func (srv *T) Name(ctx context.Context, in Input) (*Output, error)\<close> with a directive
  comment. The bytes of a file are abbreviated; the parser of the examples maps each to its
  syntax tree, and the decoder of the examples knows the payloads that occur.
\<close>

definition dq :: string where
  "dq = [CHR 0x22]"

definition namedField :: "string \<Rightarrow> Expr \<Rightarrow> ast_Field" where
  "namedField name ty = \<lparr>ast_Field.Names = [name], ast_Field.Type = ty, ast_Field.Tag = None\<rparr>"

definition unnamedField :: "Expr \<Rightarrow> ast_Field" where
  "unnamedField ty = \<lparr>ast_Field.Names = [], ast_Field.Type = ty, ast_Field.Tag = None\<rparr>"

definition apiFuncType :: "string \<Rightarrow> string \<Rightarrow> ast_FuncType" where
  "apiFuncType input output =
     \<lparr>Params = [namedField ''ctx'' (OtherExpr ''context.Context''), namedField ''in'' (Ident input)],
      Results = Some [unnamedField (StarExpr (Ident output)), unnamedField (Ident ''error'')]\<rparr>"

definition apiMethodDecl :: "string \<Rightarrow> string \<Rightarrow> string \<Rightarrow> string \<Rightarrow> string \<Rightarrow> ast_FuncDecl" where
  "apiMethodDecl comment recvType name input output =
     \<lparr>Doc = Some [comment],
      Recv = Some [namedField ''srv'' (StarExpr (Ident recvType))],
      ast_FuncDecl.Name = name,
      ast_FuncDecl.Type = apiFuncType input output,
      Body = []\<rparr>"

definition profileParamsSpec :: ast_TypeSpec where
  "profileParamsSpec =
     \<lparr>ast_TypeSpec.Name = ''ProfileParams'',
      ast_TypeSpec.Type = StructType
        [\<lparr>ast_Field.Names = [''Login''], ast_Field.Type = Ident ''string'',
          ast_Field.Tag = Some (''`apivalidator:'' @ dq @ ''required'' @ dq @ ''`'')\<rparr>]\<rparr>"

definition authDirective :: string where
  "authDirective = ''// apigen:api {'' @ dq @ ''auth'' @ dq @ '': true}''"

text \<open>api.go: two receiver types, the methods of \<open>MyApi\<close> around the one of \<open>OtherApi\<close>.\<close>

definition profileDecl :: ast_FuncDecl where
  "profileDecl = apiMethodDecl ''// apigen:api {}'' ''MyApi'' ''Profile'' ''ProfileParams'' ''User''"

definition otherCreateDecl :: ast_FuncDecl where
  "otherCreateDecl = apiMethodDecl authDirective ''OtherApi'' ''Create'' ''OtherCreateParams'' ''OtherUser''"

definition createDecl :: ast_FuncDecl where
  "createDecl = apiMethodDecl authDirective ''MyApi'' ''Create'' ''CreateParams'' ''NewUser''"

definition apiDecls :: "ast_Decl list" where
  "apiDecls = [GenDecl [profileParamsSpec], FuncDecl profileDecl, FuncDecl otherCreateDecl, FuncDecl createDecl]"

text \<open>broken.go: the second directive is not JSON (the key is not quoted).\<close>

definition brokenDecl :: ast_FuncDecl where
  "brokenDecl = apiMethodDecl ''// apigen:api {url: /user/create}'' ''MyApi'' ''Create'' ''CreateParams'' ''NewUser''"

definition brokenDecls :: "ast_Decl list" where
  "brokenDecls = [GenDecl [profileParamsSpec], FuncDecl profileDecl, FuncDecl brokenDecl]"

text \<open>ping.go: a directive on the package-level function \<open>func Ping(ctx context.Context, in PingParams) (*Pong, error)\<close>.\<close>

definition pingDecl :: ast_FuncDecl where
  "pingDecl = (apiMethodDecl ''// apigen:api {}'' [] ''Ping'' ''PingParams'' ''Pong'')\<lparr>Recv := None\<rparr>"

text \<open>three.go: \<open>func (srv *MyApi) Profile(ctx context.Context, in ProfileParams, dryRun bool) (*User, error)\<close>.\<close>

definition threeParamDecl :: ast_FuncDecl where
  "threeParamDecl =
     profileDecl\<lparr>ast_FuncDecl.Type :=
       (apiFuncType ''ProfileParams'' ''User'')\<lparr>Params :=
          [namedField ''ctx'' (OtherExpr ''context.Context''), namedField ''in'' (Ident ''ProfileParams''),
           namedField ''dryRun'' (Ident ''bool'')]\<rparr>\<rparr>"

text \<open>value.go: the value receiver \<open>func (srv MyApi) Profile(...)\<close>.\<close>

definition valueReceiverDecl :: ast_FuncDecl where
  "valueReceiverDecl = profileDecl\<lparr>Recv := Some [namedField ''srv'' (Ident ''MyApi'')]\<rparr>"

definition exampleSources :: "(string \<times> ast_Decl list) list" where
  "exampleSources =
     [(''package example // api.go'', apiDecls),
      (''package example // broken.go'', brokenDecls),
      (''package example // ping.go'', [FuncDecl pingDecl]),
      (''package example // three.go'', [GenDecl [profileParamsSpec], FuncDecl threeParamDecl]),
      (''package example // value.go'', [FuncDecl valueReceiverDecl])]"

definition exampleParser :: "parser_Mode \<Rightarrow> string \<Rightarrow> error + ast_File" where
  "exampleParser mode src =
     (case map_of exampleSources src of
        None \<Rightarrow> Inl (SyntaxError ''expected package'')
      | Some decls \<Rightarrow>
          Inr \<lparr>ast_File.Name = ''example'',
               Decls = (case mode of ParseComments \<Rightarrow> decls | PackageClauseOnly \<Rightarrow> [])\<rparr>)"

definition exampleUnmarshal :: "string \<Rightarrow> error + ApiMethod" where
  "exampleUnmarshal payload =
     (if payload = '' {}'' then Inr zeroApiMethod
      else if payload = '' {'' @ dq @ ''auth'' @ dq @ '': true}'' then Inr (zeroApiMethod\<lparr>Auth := True\<rparr>)
      else Inl (JsonError ''invalid character''))"

definition exampleSprintf :: "Expr \<Rightarrow> string" where
  "exampleSprintf e = (case e of Ident name \<Rightarrow> name | StarExpr _ \<Rightarrow> ''&{}'' | OtherExpr t \<Rightarrow> t)"

definition exampleTemplate :: "templateData \<Rightarrow> error + string" where
  "exampleTemplate data =
     Inr (''package '' @ PackageName data @
          concat (map (\<lambda>T. case Methods data T of
                               None \<Rightarrow> []
                             | Some ms \<Rightarrow> ''; func (h *'' @ T @ '') ServeHTTP:'' @
                                          concat (map (\<lambda>m. '' '' @ Method.Name m) ms))
                      [''MyApi'', ''OtherApi'']))"

definition exampleFormat :: "string \<Rightarrow> error + string" where
  "exampleFormat buf =
     (if strings_HasPrefix buf ''package '' then Inr (buf @ [CHR 0x0A])
      else Inl (FormatError ''expected package''))"

definition exampleLib :: golib where
  "exampleLib =
     \<lparr>parser_ParseSource = exampleParser,
      json_Unmarshal = exampleUnmarshal,
      fmt_Sprintf_s = exampleSprintf,
      handlerTemplate_Execute = exampleTemplate,
      format_Source = exampleFormat\<rparr>"

text \<open>A template whose output is not a Go file.\<close>

definition defectiveLib :: golib where
  "defectiveLib = exampleLib\<lparr>handlerTemplate_Execute := (\<lambda>data. Inr (''func '' @ PackageName data))\<rparr>"

definition exampleWorld :: world where
  "exampleWorld =
     \<lparr>files = [''example/api.go'' \<mapsto> ''package example // api.go'',
               ''example/broken.go'' \<mapsto> ''package example // broken.go'',
               ''example/ping.go'' \<mapsto> ''package example // ping.go'',
               ''example/three.go'' \<mapsto> ''package example // three.go'',
               ''example/value.go'' \<mapsto> ''package example // value.go''],
      denied = {}\<rparr>"

definition generatedCode :: string where
  "generatedCode =
     ''package example; func (h *MyApi) ServeHTTP: Profile Create; func (h *OtherApi) ServeHTTP: Create'' @ [CHR 0x0A]"

text \<open>The three methods of api.go as \<open>parseFile\<close> returns them.\<close>

definition profileMethod :: Method where
  "profileMethod =
     \<lparr>Method.Name = ''Profile'', ReceiverName = ''srv'', ReceiverType = ''MyApi'',
      InputType = ''ProfileParams'', OutputType = ''User'',
      ApiMethod = \<lparr>Url = [], Auth = False, Method = ''GET,POST'', AuthEnvKey = []\<rparr>,
      StructFields =
        [\<lparr>StructField.Name = ''Login'', StructField.Type = ''string'',
          StructField.Tag = zeroApiValidatorTag\<lparr>Required := True\<rparr>\<rparr>]\<rparr>"

definition otherCreateMethod :: Method where
  "otherCreateMethod =
     \<lparr>Method.Name = ''Create'', ReceiverName = ''srv'', ReceiverType = ''OtherApi'',
      InputType = ''OtherCreateParams'', OutputType = ''OtherUser'',
      ApiMethod = \<lparr>Url = [], Auth = True, Method = ''GET,POST'', AuthEnvKey = ''API_AUTH_KEY''\<rparr>,
      StructFields = []\<rparr>"

definition createMethod :: Method where
  "createMethod =
     \<lparr>Method.Name = ''Create'', ReceiverName = ''srv'', ReceiverType = ''MyApi'',
      InputType = ''CreateParams'', OutputType = ''NewUser'',
      ApiMethod = \<lparr>Url = [], Auth = True, Method = ''GET,POST'', AuthEnvKey = ''API_AUTH_KEY''\<rparr>,
      StructFields = []\<rparr>"

section \<open>Properties of the tag parser\<close>

lemma applyClause_Required_mono: "Required r \<Longrightarrow> Required (applyClause r part)"
  by (simp add: applyClause_def Let_def split: sum.splits)

lemma applyClause_required: "clauseKey part = ''required'' \<Longrightarrow> Required (applyClause r part)"
  by (simp add: applyClause_def)

lemma foldl_applyClause_Required_mono: "Required r \<Longrightarrow> Required (foldl applyClause r parts)"
  by (induction parts arbitrary: r) (simp_all add: applyClause_Required_mono)

lemma foldl_applyClause_required:
  "part \<in> set parts \<Longrightarrow> clauseKey part = ''required'' \<Longrightarrow> Required (foldl applyClause r parts)"
proof (induction parts arbitrary: r)
  case Nil
  then show ?case by simp
next
  case (Cons p ps)
  show ?case
  proof (cases "p = part")
    case True
    with Cons.prems have "Required (applyClause r p)" by (simp add: applyClause_required)
    then show ?thesis by (simp add: foldl_applyClause_Required_mono)
  next
    case False
    with Cons.prems have "part \<in> set ps" by simp
    then show ?thesis using Cons.IH Cons.prems(2) by simp
  qed
qed

lemma applyClause_Min_keep:
  "clauseKey part = ''min'' \<longrightarrow> isl (strToInt (clauseValue part)) \<Longrightarrow>
   Min_opt (applyClause r part) = Min_opt r"
  by (auto simp add: applyClause_def Let_def split: sum.splits)

lemma applyClause_Max_keep:
  "clauseKey part = ''max'' \<longrightarrow> isl (strToInt (clauseValue part)) \<Longrightarrow>
   Max_opt (applyClause r part) = Max_opt r"
  by (auto simp add: applyClause_def Let_def split: sum.splits)

lemma foldl_applyClause_Min_keep:
  "\<forall>part \<in> set parts. clauseKey part = ''min'' \<longrightarrow> isl (strToInt (clauseValue part)) \<Longrightarrow>
   Min_opt (foldl applyClause r parts) = Min_opt r"
  by (induction parts arbitrary: r) (simp_all add: applyClause_Min_keep)

lemma foldl_applyClause_Max_keep:
  "\<forall>part \<in> set parts. clauseKey part = ''max'' \<longrightarrow> isl (strToInt (clauseValue part)) \<Longrightarrow>
   Max_opt (foldl applyClause r parts) = Max_opt r"
  by (induction parts arbitrary: r) (simp_all add: applyClause_Max_keep)

lemma strings_SplitN_2_nonempty: "strings_SplitN part sep 2 \<noteq> []"
  by (simp add: numeral_2_eq_2)

text \<open>
  Claim C10. A clause whose key is \<open>required\<close> sets \<open>Required\<close>, whatever value is
  attached to it: no clause ever resets the field, and the switch does not read the value
  of a \<open>required\<close> clause. So \<open>required=false\<close> yields \<open>Required = True\<close>.
\<close>

theorem required_clause_sets_Required:
  assumes "part \<in> set (tagParts tagText)" and "clauseKey part = ''required''"
  shows "Required (parseApiValidatorTag (Some tagText))"
  using assms by (simp add: parseApiValidatorTag_def foldl_applyClause_required)

theorem required_clause_sets_Required_witness:
  "''required=false'' \<in> set (tagParts (''`apivalidator:'' @ dq @ ''required=false'' @ dq @ ''`''))
   \<and> clauseKey ''required=false'' = ''required''
   \<and> clauseValue ''required=false'' = ''false''
   \<and> Required (parseApiValidatorTag (Some (''`apivalidator:'' @ dq @ ''required=false'' @ dq @ ''`'')))"
proof -
  have h1: "''required=false'' \<in> set (tagParts (''`apivalidator:'' @ dq @ ''required=false'' @ dq @ ''`''))"
    by code_simp
  have h2: "clauseKey ''required=false'' = ''required''" by code_simp
  have h3: "clauseValue ''required=false'' = ''false''" by code_simp
  show ?thesis using h1 h2 h3 required_clause_sets_Required [OF h1 h2] by simp
qed

text \<open>
  Claim C3, amended. A \<open>min\<close> or \<open>max\<close> clause whose value \<open>strToInt\<close> rejects is
  dropped without an error (the parser returns a tag for every input). When every
  \<open>min\<close> clause of a tag is rejected, \<open>Min\<close> is unset, and likewise for \<open>max\<close>; the
  tag \<open>min=abc\<close> yields \<open>Min = None\<close>.
\<close>

theorem unparsable_bounds_stay_unset:
  "((\<forall>part \<in> set (tagParts tagText). clauseKey part = ''min'' \<longrightarrow> isl (strToInt (clauseValue part)))
      \<longrightarrow> Min_opt (parseApiValidatorTag (Some tagText)) = None)
   \<and> ((\<forall>part \<in> set (tagParts tagText). clauseKey part = ''max'' \<longrightarrow> isl (strToInt (clauseValue part)))
      \<longrightarrow> Max_opt (parseApiValidatorTag (Some tagText)) = None)"
  by (simp add: parseApiValidatorTag_def foldl_applyClause_Min_keep foldl_applyClause_Max_keep
        zeroApiValidatorTag_def)

theorem unparsable_bounds_stay_unset_witness:
  "tagParts ''min=abc'' = [''min=abc'']
   \<and> clauseKey ''min=abc'' = ''min'' \<and> isl (strToInt (clauseValue ''min=abc''))
   \<and> Min_opt (parseApiValidatorTag (Some ''min=abc'')) = None
   \<and> Max_opt (parseApiValidatorTag (Some ''min=abc'')) = None"
proof -
  have p: "tagParts ''min=abc'' = [''min=abc'']" by code_simp
  have k: "clauseKey ''min=abc'' = ''min''" by code_simp
  have v: "isl (strToInt (clauseValue ''min=abc''))" by code_simp
  have hmin: "\<forall>part \<in> set (tagParts ''min=abc''). clauseKey part = ''min'' \<longrightarrow> isl (strToInt (clauseValue part))"
    using p v by simp
  have hmax: "\<forall>part \<in> set (tagParts ''min=abc''). clauseKey part = ''max'' \<longrightarrow> isl (strToInt (clauseValue part))"
    using p k by simp
  show ?thesis
    using p k v hmin hmax unparsable_bounds_stay_unset [of "''min=abc''"] by blast
qed

text \<open>
  As stated, C3 speaks of every tag that contains an unparsable clause. A dropped clause
  leaves the bound as an earlier clause set it: after \<open>min=3\<close>, the clause \<open>min=abc\<close>
  is rejected and \<open>Min\<close> stays 3.
\<close>

theorem unparsable_min_after_parsable_counterexample:
  "''min=abc'' \<in> set (tagParts (''`apivalidator:'' @ dq @ ''min=3,min=abc'' @ dq @ ''`''))
   \<and> clauseKey ''min=abc'' = ''min''
   \<and> strToInt (clauseValue ''min=abc'') = Inl (ScanError ''expected integer'')
   \<and> Min_opt (parseApiValidatorTag (Some (''`apivalidator:'' @ dq @ ''min=3,min=abc'' @ dq @ ''`''))) = Some 3"
  by code_simp

end
